theory Spec2Isabelle
  imports Complex_Main "HOL-Library.AList"
begin

section \<open>JavaScript values\<close>

text \<open>
  The harness handles JSON-like values: responses returned by the HTTP library, their
  bodies and header objects, and the entities checked by the schema validators.
  Stored numbers are modelled as integers (status codes, millisecond readings of the
  clock and their differences are integers); fractions, NaN and the infinities occur
  only as results of converting a string to a number. An object is the list of its own properties in insertion
  order; a well-formed object has no key twice, and reading a property takes the
  binding found first.
\<close>

datatype jsval =
    JUndefined
  | JNull
  | JBool bool
  | JNum int
  | JStr string
  | JArr "jsval list"
  | JObj "(string \<times> jsval) list"

type_synonym obj = "(string \<times> jsval) list"

text \<open>Truthiness, as tested by \<^verbatim>\<open>if (x)\<close> and by \<^verbatim>\<open>x || y\<close>.\<close>

fun truthy :: "jsval \<Rightarrow> bool" where
  "truthy JUndefined = False"
| "truthy JNull = False"
| "truthy (JBool b) = b"
| "truthy (JNum n) = (n \<noteq> 0)"
| "truthy (JStr s) = (s \<noteq> [])"
| "truthy (JArr xs) = True"
| "truthy (JObj kvs) = True"

subsection \<open>Conversion to string (template literals)\<close>

definition digit_char :: "nat \<Rightarrow> char" where
  "digit_char d = ''0123456789'' ! d"

fun show_nat :: "nat \<Rightarrow> string" where
  "show_nat n = (if n < 10 then [digit_char n] else show_nat (n div 10) @ [digit_char (n mod 10)])"

declare show_nat.simps [simp del]

definition show_int :: "int \<Rightarrow> string" where
  "show_int i = (if i < 0 then CHR ''-'' # show_nat (nat (- i)) else show_nat (nat i))"

fun join_comma :: "string list \<Rightarrow> string" where
  "join_comma [] = []"
| "join_comma [s] = s"
| "join_comma (s # t # ss) = s @ '','' @ join_comma (t # ss)"

text \<open>
  \<open>to_string\<close> is the conversion a template literal applies to an interpolated value.
  An integer is written in decimal (as the language does below \<open>10 ^ 21\<close>); an array
  is joined with commas, its undefined and null elements rendered empty; a plain object
  renders as \<^verbatim>\<open>[object Object]\<close>.
\<close>

fun to_string :: "jsval \<Rightarrow> string" where
  "to_string JUndefined = ''undefined''"
| "to_string JNull = ''null''"
| "to_string (JBool b) = (if b then ''true'' else ''false'')"
| "to_string (JNum n) = show_int n"
| "to_string (JStr s) = s"
| "to_string (JArr xs) =
     join_comma (map (\<lambda>x. if x = JUndefined \<or> x = JNull then [] else to_string x) xs)"
| "to_string (JObj kvs) = ''[object Object]''"

subsection \<open>Conversion to number and comparison with a number\<close>

text \<open>
  The result of converting a value to a number: NaN, a finite number or an infinity.
  Finite results are exact rationals; the rounding of the language's doubles is not
  modelled.
\<close>

datatype jsnum = NaN | Fin rat | PosInf | NegInf

fun negate :: "jsnum \<Rightarrow> jsnum" where
  "negate NaN = NaN"
| "negate (Fin x) = Fin (- x)"
| "negate PosInf = NegInf"
| "negate NegInf = PosInf"

text \<open>
  The numeric reading of a string: white space is trimmed (the ASCII white space
  characters; the language also trims the other Unicode spaces); the empty string is
  0; otherwise the string must be a binary, octal or hexadecimal integer literal
  without sign, or an optionally signed decimal literal (digits with an optional
  fraction and an optional exponent) or \<^verbatim>\<open>Infinity\<close>; every other string is NaN.
\<close>

definition is_ws :: "char \<Rightarrow> bool" where
  "is_ws c = (c \<in> set [CHR '' '', CHR 0x09, CHR 0x0A, CHR 0x0B, CHR 0x0C, CHR 0x0D])"

definition trim :: "string \<Rightarrow> string" where
  "trim s = rev (dropWhile is_ws (rev (dropWhile is_ws s)))"

definition is_digit :: "char \<Rightarrow> bool" where
  "is_digit c = (c \<in> set ''0123456789'')"

definition is_hex_digit :: "char \<Rightarrow> bool" where
  "is_hex_digit c = (c \<in> set ''0123456789abcdefABCDEF'')"

definition hex_val :: "char \<Rightarrow> nat" where
  "hex_val c =
     (if is_digit c then of_char c - 48
      else if c \<in> set ''abcdef'' then of_char c - 87
      else of_char c - 55)"

definition radix_value :: "nat \<Rightarrow> (char \<Rightarrow> bool) \<Rightarrow> string \<Rightarrow> jsnum" where
  "radix_value base ok s =
     (if s \<noteq> [] \<and> list_all ok s
      then Fin (of_nat (foldl (\<lambda>a c. base * a + hex_val c) 0 s))
      else NaN)"

definition digits_nat :: "string \<Rightarrow> nat" where
  "digits_nat s = foldl (\<lambda>a c. 10 * a + hex_val c) 0 s"

text \<open>The mantissa: digits, digits with a fraction, or a fraction alone.\<close>

definition mantissa_value :: "string \<Rightarrow> rat option" where
  "mantissa_value s =
     (case (takeWhile is_digit s, dropWhile is_digit s) of
        (ip, []) \<Rightarrow> if ip \<noteq> [] then Some (of_nat (digits_nat ip)) else None
      | (ip, c # fp) \<Rightarrow>
          if c = CHR ''.'' \<and> list_all is_digit fp \<and> (ip \<noteq> [] \<or> fp \<noteq> [])
          then Some (of_nat (digits_nat ip) + of_nat (digits_nat fp) / 10 ^ length fp)
          else None)"

text \<open>The exponent after \<^verbatim>\<open>e\<close> or \<^verbatim>\<open>E\<close>: an optionally signed run of digits.\<close>

definition exponent_value :: "string \<Rightarrow> int option" where
  "exponent_value s =
     (case s of
        [] \<Rightarrow> None
      | c # r \<Rightarrow>
          if c = CHR ''+'' \<or> c = CHR ''-''
          then (if r \<noteq> [] \<and> list_all is_digit r
                then Some (if c = CHR ''-'' then - int (digits_nat r) else int (digits_nat r))
                else None)
          else (if list_all is_digit s then Some (int (digits_nat s)) else None))"

definition scale10 :: "rat \<Rightarrow> int \<Rightarrow> rat" where
  "scale10 m e = (if 0 \<le> e then m * 10 ^ nat e else m / 10 ^ nat (- e))"

definition unsigned_decimal :: "string \<Rightarrow> jsnum" where
  "unsigned_decimal s =
     (if s = ''Infinity'' then PosInf
      else case (takeWhile (\<lambda>c. c \<noteq> CHR ''e'' \<and> c \<noteq> CHR ''E'') s,
                dropWhile (\<lambda>c. c \<noteq> CHR ''e'' \<and> c \<noteq> CHR ''E'') s) of
        (m, []) \<Rightarrow> (case mantissa_value m of Some x \<Rightarrow> Fin x | None \<Rightarrow> NaN)
      | (m, c # ex) \<Rightarrow>
          (case (mantissa_value m, exponent_value ex) of
             (Some x, Some e) \<Rightarrow> Fin (scale10 x e)
           | _ \<Rightarrow> NaN))"

definition str_to_number :: "string \<Rightarrow> jsnum" where
  "str_to_number s =
     (case trim s of
        [] \<Rightarrow> Fin 0
      | c # r \<Rightarrow>
          if c = CHR ''+'' then unsigned_decimal r
          else if c = CHR ''-'' then negate (unsigned_decimal r)
          else if c = CHR ''0'' \<and> r \<noteq> [] \<and> hd r \<in> set ''xX''
            then radix_value 16 is_hex_digit (tl r)
          else if c = CHR ''0'' \<and> r \<noteq> [] \<and> hd r \<in> set ''oO''
            then radix_value 8 (\<lambda>d. d \<in> set ''01234567'') (tl r)
          else if c = CHR ''0'' \<and> r \<noteq> [] \<and> hd r \<in> set ''bB''
            then radix_value 2 (\<lambda>d. d \<in> set ''01'') (tl r)
          else unsigned_decimal (c # r))"

text \<open>
  \<open>to_number\<close>: undefined is NaN, null is 0, a boolean is 0 or 1, an array converts
  through its string, a plain object is NaN.
\<close>

fun to_number :: "jsval \<Rightarrow> jsnum" where
  "to_number JUndefined = NaN"
| "to_number JNull = Fin 0"
| "to_number (JBool b) = Fin (if b then 1 else 0)"
| "to_number (JNum n) = Fin (of_int n)"
| "to_number (JStr s) = str_to_number s"
| "to_number (JArr xs) = str_to_number (to_string (JArr xs))"
| "to_number (JObj kvs) = NaN"

text \<open>
  \<^verbatim>\<open>a <= n\<close>, \<^verbatim>\<open>a >= n\<close> and \<^verbatim>\<open>a < n\<close> for a number \<open>n\<close>: the left operand is
  converted to a number, and every comparison with NaN is false.
\<close>

fun num_le :: "jsnum \<Rightarrow> int \<Rightarrow> bool" where
  "num_le NaN n = False"
| "num_le (Fin x) n = (x \<le> of_int n)"
| "num_le PosInf n = False"
| "num_le NegInf n = True"

fun num_ge :: "jsnum \<Rightarrow> int \<Rightarrow> bool" where
  "num_ge NaN n = False"
| "num_ge (Fin x) n = (of_int n \<le> x)"
| "num_ge PosInf n = True"
| "num_ge NegInf n = False"

fun num_lt :: "jsnum \<Rightarrow> int \<Rightarrow> bool" where
  "num_lt NaN n = False"
| "num_lt (Fin x) n = (x < of_int n)"
| "num_lt PosInf n = False"
| "num_lt NegInf n = True"

definition js_le :: "jsval \<Rightarrow> int \<Rightarrow> bool" where
  "js_le a n = num_le (to_number a) n"

definition js_ge :: "jsval \<Rightarrow> int \<Rightarrow> bool" where
  "js_ge a n = num_ge (to_number a) n"

definition js_lt :: "jsval \<Rightarrow> int \<Rightarrow> bool" where
  "js_lt a n = num_lt (to_number a) n"

subsection \<open>Errors and results\<close>

text \<open>
  A thrown value is an error object: its constructor name, its \<^verbatim>\<open>message\<close>, the
  response the HTTP library attaches to it (\<^verbatim>\<open>error.response\<close>, absent unless the
  server answered) and the \<^verbatim>\<open>error.timeout\<close> property the library sets on a timeout.
  A computation that may throw returns \<open>js_error + 'a\<close>, with \<open>Inl\<close> the thrown error.
\<close>

record js_error =
  err_name :: string
  err_message :: string
  err_response :: "obj option"
  err_timeout :: jsval

definition new_Error :: "string \<Rightarrow> js_error" where
  "new_Error msg = \<lparr>err_name = ''Error'', err_message = msg, err_response = None, err_timeout = JUndefined\<rparr>"

definition TypeError :: "string \<Rightarrow> js_error" where
  "TypeError msg = \<lparr>err_name = ''TypeError'', err_message = msg, err_response = None, err_timeout = JUndefined\<rparr>"

definition AssertionError :: "string \<Rightarrow> js_error" where
  "AssertionError msg =
     \<lparr>err_name = ''AssertionError'', err_message = msg, err_response = None, err_timeout = JUndefined\<rparr>"

text \<open>Sequencing of two computations that may throw.\<close>

definition bind :: "js_error + 'a \<Rightarrow> ('a \<Rightarrow> js_error + 'b) \<Rightarrow> js_error + 'b" where
  "bind r k = (case r of Inl e \<Rightarrow> Inl e | Inr x \<Rightarrow> k x)"

definition seq :: "js_error + unit \<Rightarrow> js_error + 'b \<Rightarrow> js_error + 'b" where
  "seq r k = (case r of Inl e \<Rightarrow> Inl e | Inr u \<Rightarrow> k)"

subsection \<open>Property access\<close>

text \<open>
  \<^verbatim>\<open>v.name\<close> throws a TypeError on undefined and null. On an object it is the value
  bound to the name, or undefined. The harness reads only named data properties
  (status, body, headers, duration, ...), none of which a string, a number, a boolean
  or an array carries, so on those the read gives undefined.
\<close>

fun get_prop :: "jsval \<Rightarrow> string \<Rightarrow> js_error + jsval" where
  "get_prop JUndefined k = Inl (TypeError (''Cannot read properties of undefined (reading '' @ k @ '')''))"
| "get_prop JNull k = Inl (TypeError (''Cannot read properties of null (reading '' @ k @ '')''))"
| "get_prop (JObj kvs) k = Inr (case map_of kvs k of Some v \<Rightarrow> v | None \<Rightarrow> JUndefined)"
| "get_prop v k = Inr JUndefined"

section \<open>Assertions of the test framework\<close>

text \<open>
  The assertion library is a collaborator of the harness. Each assertion the harness
  uses is modelled by its pass condition; a failed assertion throws an AssertionError.
  The library renders the inspected target into its messages; the model writes
  \<^verbatim>\<open>target\<close> in its place.
\<close>

text \<open>\<^verbatim>\<open>expect(v).to.exist\<close>: the value is neither null nor undefined.\<close>

definition expect_exist :: "jsval \<Rightarrow> js_error + unit" where
  "expect_exist v =
     (if v = JNull \<or> v = JUndefined then Inl (AssertionError ''expected target to exist'')
      else Inr ())"

text \<open>The type name the library detects for a value, in lower case.\<close>

fun type_detect :: "jsval \<Rightarrow> string" where
  "type_detect JUndefined = ''undefined''"
| "type_detect JNull = ''null''"
| "type_detect (JBool b) = ''boolean''"
| "type_detect (JNum n) = ''number''"
| "type_detect (JStr s) = ''string''"
| "type_detect (JArr xs) = ''array''"
| "type_detect (JObj kvs) = ''object''"

text \<open>\<^verbatim>\<open>expect(v).to.be.a(t)\<close> and \<^verbatim>\<open>expect(v).to.be.an(t)\<close>.\<close>

definition expect_a :: "jsval \<Rightarrow> string \<Rightarrow> js_error + unit" where
  "expect_a v t =
     (if type_detect v = t then Inr ()
      else Inl (AssertionError (''expected target to be a '' @ t)))"

text \<open>
  \<^verbatim>\<open>name in Object(v)\<close> for the data property names the harness asks for: an object
  has the property when it binds the name (whatever the value bound, undefined
  included); the other kinds of value have none of these names.
\<close>

fun has_property :: "jsval \<Rightarrow> string \<Rightarrow> bool" where
  "has_property (JObj kvs) k = (map_of kvs k \<noteq> None)"
| "has_property v k = False"

text \<open>
  \<^verbatim>\<open>expect(v).to.have.property(k)\<close>: fails on null and undefined, fails when the
  property is missing, and otherwise continues the chain with the property's value.
\<close>

definition expect_property :: "jsval \<Rightarrow> string \<Rightarrow> js_error + jsval" where
  "expect_property v k =
     (if v = JNull \<or> v = JUndefined then Inl (AssertionError ''Target cannot be null or undefined.'')
      else if has_property v k then get_prop v k
      else Inl (AssertionError (''expected target to have property '' @ k)))"

text \<open>\<^verbatim>\<open>expect(v).to.have.property(k).that.is.a(t)\<close>.\<close>

definition expect_property_a :: "jsval \<Rightarrow> string \<Rightarrow> string \<Rightarrow> js_error + unit" where
  "expect_property_a v k t = bind (expect_property v k) (\<lambda>x. expect_a x t)"

text \<open>\<^verbatim>\<open>expect(v).to.equal(n)\<close> for a number \<open>n\<close>: strict equality.\<close>

definition expect_equal :: "jsval \<Rightarrow> int \<Rightarrow> js_error + unit" where
  "expect_equal v n =
     (if v = JNum n then Inr ()
      else Inl (AssertionError (''expected target to equal '' @ show_int n)))"

text \<open>
  \<^verbatim>\<open>expect(v).to.include(s)\<close> for a string \<open>s\<close>: a string target must contain \<open>s\<close>,
  an array target must have \<open>s\<close> as a member; on every other target the library
  rejects the combination of arguments.
\<close>

definition is_substring :: "string \<Rightarrow> string \<Rightarrow> bool" where
  "is_substring s t = list_ex (\<lambda>i. take (length s) (drop i t) = s) [0..<Suc (length t)]"

fun expect_include :: "jsval \<Rightarrow> string \<Rightarrow> js_error + unit" where
  "expect_include (JStr t) s =
     (if is_substring s t then Inr ()
      else Inl (AssertionError (''expected target to include '' @ s)))"
| "expect_include (JArr xs) s =
     (if JStr s \<in> set xs then Inr ()
      else Inl (AssertionError (''expected target to include '' @ s)))"
| "expect_include v s =
     Inl (AssertionError
       (''the given combination of arguments ('' @ type_detect v @ '' and string)''
        @ '' is invalid for this assertion.''))"

subsection \<open>Custom assertions of the global test setup\<close>

text \<open>
  \<^verbatim>\<open>expect(obj).to.have.responseTime(expectedTime)\<close>: the time compared is
  \<^verbatim>\<open>obj.duration || obj.responseTime\<close>.
\<close>

definition responseTime :: "jsval \<Rightarrow> int \<Rightarrow> js_error + unit" where
  "responseTime obj expectedTime =
     bind (get_prop obj ''duration'') (\<lambda>duration.
     bind (if truthy duration then Inr duration else get_prop obj ''responseTime'') (\<lambda>actualTime.
       if js_le actualTime expectedTime then Inr ()
       else Inl (AssertionError
         (''expected response time to be <= '' @ show_int expectedTime
          @ ''ms but got '' @ to_string actualTime @ ''ms''))))"

text \<open>
  \<^verbatim>\<open>expect(obj).to.have.clientErrorStatus()\<close>: the status examined is
  \<^verbatim>\<open>obj.status || obj.statusCode\<close>, and it must lie in the range 400 to 499.
\<close>

definition clientErrorStatus :: "jsval \<Rightarrow> js_error + unit" where
  "clientErrorStatus obj =
     bind (get_prop obj ''status'') (\<lambda>st.
     bind (if truthy st then Inr st else get_prop obj ''statusCode'') (\<lambda>status.
       if js_ge status 400 \<and> js_lt status 500 then Inr ()
       else Inl (AssertionError
         (''expected status to be client error (4xx) but got '' @ to_string status))))"

section \<open>Response and schema validators\<close>

definition validateBasicResponse :: "jsval \<Rightarrow> js_error + unit" where
  "validateBasicResponse response =
     seq (expect_exist response)
    (bind (expect_property response ''status'') (\<lambda>x.
     bind (expect_property response ''body'') (\<lambda>y.
     bind (expect_property response ''headers'') (\<lambda>z. Inr ()))))"

definition validateJsonContentType :: "jsval \<Rightarrow> js_error + unit" where
  "validateJsonContentType response =
     bind (get_prop response ''headers'') (\<lambda>headers.
     bind (expect_property headers ''content-type'') (\<lambda>x.
     bind (get_prop response ''headers'') (\<lambda>headers'.
     bind (get_prop headers' ''content-type'') (\<lambda>contentType.
       expect_include contentType ''application/json''))))"

text \<open>The default of \<open>maxTime\<close>, 3000, is passed by the callers that omit it.\<close>

definition validateResponseTime :: "jsval \<Rightarrow> int \<Rightarrow> js_error + unit" where
  "validateResponseTime response maxTime = responseTime response maxTime"

definition validateUserSchema :: "jsval \<Rightarrow> js_error + unit" where
  "validateUserSchema user =
     seq (expect_a user ''object'')
    (seq (expect_property_a user ''id'' ''number'')
    (seq (expect_property_a user ''name'' ''string'')
    (seq (expect_property_a user ''username'' ''string'')
    (seq (expect_property_a user ''email'' ''string'')
    (seq (expect_property_a user ''phone'' ''string'')
    (seq (expect_property_a user ''website'' ''string'')
    (seq (expect_property_a user ''address'' ''object'')
         (expect_property_a user ''company'' ''object''))))))))"

section \<open>The resource-client and page-object wrappers\<close>

text \<open>
  Both wrappers hold the same validators. \<open>expectedStatus\<close> and \<open>maxTime\<close> are
  numbers; their defaults (200, 400 and 3000) are passed by the callers that omit them.
\<close>

definition BaseApiClient_validateSuccessResponse :: "jsval \<Rightarrow> int \<Rightarrow> js_error + jsval" where
  "BaseApiClient_validateSuccessResponse response expectedStatus =
     seq (validateBasicResponse response)
    (bind (get_prop response ''status'') (\<lambda>status.
     seq (expect_equal status expectedStatus)
    (seq (if expectedStatus < 400 then validateJsonContentType response else Inr ())
         (get_prop response ''body''))))"

definition BasePageObject_validateAndGetBody :: "jsval \<Rightarrow> int \<Rightarrow> js_error + jsval" where
  "BasePageObject_validateAndGetBody response expectedStatus =
     seq (validateBasicResponse response)
    (bind (get_prop response ''status'') (\<lambda>status.
     seq (expect_equal status expectedStatus)
    (seq (if expectedStatus < 400 then validateJsonContentType response else Inr ())
         (get_prop response ''body''))))"

definition BasePageObject_validateResponseTime :: "jsval \<Rightarrow> int \<Rightarrow> js_error + unit" where
  "BasePageObject_validateResponseTime response maxTime = validateResponseTime response maxTime"

definition BasePageObject_validateSuccessResponse :: "jsval \<Rightarrow> int \<Rightarrow> js_error + jsval" where
  "BasePageObject_validateSuccessResponse response expectedStatus =
     bind (BasePageObject_validateAndGetBody response expectedStatus) (\<lambda>body.
     seq (BasePageObject_validateResponseTime response 3000)
         (Inr body))"

text \<open>
  \<open>expectClientError\<close> awaits the request function inside a \<^verbatim>\<open>try\<close> block whose next
  statement throws, so the block always ends in the \<^verbatim>\<open>catch\<close> clause: with the
  rejection of the request function, or with the error thrown after its success.
\<close>

definition BaseApiClient_expectClientError ::
  "(unit \<Rightarrow> js_error + 'a) \<Rightarrow> int \<Rightarrow> js_error + jsval" where
  "BaseApiClient_expectClientError requestFn expectedStatus =
     (let error = (case requestFn () of
                     Inl e \<Rightarrow> e
                   | Inr v \<Rightarrow> new_Error ''Expected request to fail but it succeeded'')
      in case err_response error of
           Some r \<Rightarrow>
             seq (clientErrorStatus (JObj r))
            (bind (get_prop (JObj r) ''status'') (\<lambda>status.
             seq (expect_equal status expectedStatus)
                 (Inr (JObj r))))
         | None \<Rightarrow> Inl error)"

section \<open>The HTTP client\<close>

text \<open>The configuration the client reads.\<close>

definition config_baseUrls_jsonplaceholder :: string where
  "config_baseUrls_jsonplaceholder = ''https://jsonplaceholder.typicode.com''"

definition config_timeout :: int where
  "config_timeout = 10000"

definition config_defaultHeaders :: "string \<rightharpoonup> string" where
  "config_defaultHeaders =
     [''Content-Type'' \<mapsto> ''application/json'', ''Accept'' \<mapsto> ''application/json'']"

text \<open>
  Header objects map header names to strings. The spread \<^verbatim>\<open>{ ...a, ...b }\<close> of two
  of them is the map \<open>a ++ b\<close>.
\<close>

record HttpClient =
  baseUrl :: string
  defaultHeaders :: "string \<rightharpoonup> string"
  timeout :: int

definition new_HttpClient :: "string \<Rightarrow> HttpClient" where
  "new_HttpClient url =
     \<lparr>baseUrl = url, defaultHeaders = config_defaultHeaders, timeout = config_timeout\<rparr>"

definition setDefaultHeaders :: "HttpClient \<Rightarrow> (string \<rightharpoonup> string) \<Rightarrow> HttpClient" where
  "setDefaultHeaders this headers = this\<lparr>defaultHeaders := defaultHeaders this ++ headers\<rparr>"

definition setAuthToken :: "HttpClient \<Rightarrow> string \<Rightarrow> HttpClient" where
  "setAuthToken this token = setDefaultHeaders this [''Authorization'' \<mapsto> ''Bearer '' @ token]"

text \<open>
  The endpoint is whatever value the caller passed: a string, or undefined when the
  argument is missing. The template literal converts it to a string.
\<close>

definition buildUrl :: "HttpClient \<Rightarrow> jsval \<Rightarrow> string" where
  "buildUrl this endpoint = baseUrl this @ to_string endpoint"

text \<open>
  The clock is read twice in a call: at entry (\<open>startTime\<close>) and, once the transport
  has settled, inside \<open>addTimingInfo\<close> (\<open>endTime\<close>). Both readings are parameters of the
  model. \<open>addTimingInfo\<close> assigns the \<^verbatim>\<open>duration\<close> property of the response.
\<close>

definition addTimingInfo :: "obj \<Rightarrow> int \<Rightarrow> int \<Rightarrow> obj" where
  "addTimingInfo response startTime endTime =
     AList.update ''duration'' (JNum (endTime - startTime)) response"

definition handleError :: "HttpClient \<Rightarrow> js_error \<Rightarrow> int \<Rightarrow> int \<Rightarrow> js_error + 'a" where
  "handleError this error startTime endTime =
     (case err_response error of
        Some r \<Rightarrow> Inl (error\<lparr>err_response := Some (addTimingInfo r startTime endTime)\<rparr>)
      | None \<Rightarrow>
          if truthy (err_timeout error)
          then Inl (new_Error (''Request timeout after '' @ show_int (timeout this) @ ''ms''))
          else Inl (new_Error (''Network error: '' @ err_message error)))"

text \<open>
  The HTTP library is the transport: it takes the request the client has built (verb,
  URL, body sent, headers set, timeout) and either resolves with a response object or
  rejects with an error.
\<close>

datatype verb = GET | POST | PUT | PATCH | DELETE

record request =
  req_method :: verb
  req_url :: string
  req_body :: "jsval option"
  req_headers :: "string \<rightharpoonup> string"
  req_timeout :: int

type_synonym transport = "request \<Rightarrow> js_error + obj"

text \<open>The default of a missing \<open>data\<close> argument is the empty object.\<close>

definition default_data :: "jsval \<Rightarrow> jsval" where
  "default_data data = (if data = JUndefined then JObj [] else data)"

text \<open>
  Each verb operation describes its request with the library's chained builder
  (\<^verbatim>\<open>.get(url)\<close>, \<^verbatim>\<open>.send(data)\<close>, \<^verbatim>\<open>.set(headers)\<close>, \<^verbatim>\<open>.timeout(ms)\<close>) and awaits it
  inside \<^verbatim>\<open>try\<close>; the \<open>_request\<close> definitions are the requests so described.
\<close>

definition get_request :: "HttpClient \<Rightarrow> jsval \<Rightarrow> (string \<rightharpoonup> string) \<Rightarrow> request" where
  "get_request this endpoint headers =
     \<lparr>req_method = GET, req_url = buildUrl this endpoint, req_body = None,
      req_headers = defaultHeaders this ++ headers, req_timeout = timeout this\<rparr>"

definition get ::
  "HttpClient \<Rightarrow> transport \<Rightarrow> int \<Rightarrow> int \<Rightarrow> jsval \<Rightarrow> (string \<rightharpoonup> string) \<Rightarrow> js_error + obj" where
  "get this tr startTime endTime endpoint headers =
     (case tr (get_request this endpoint headers) of
        Inr response \<Rightarrow> Inr (addTimingInfo response startTime endTime)
      | Inl error \<Rightarrow> handleError this error startTime endTime)"

definition post_request ::
  "HttpClient \<Rightarrow> jsval \<Rightarrow> jsval \<Rightarrow> (string \<rightharpoonup> string) \<Rightarrow> request" where
  "post_request this endpoint data headers =
     \<lparr>req_method = POST, req_url = buildUrl this endpoint,
      req_body = Some (default_data data),
      req_headers = defaultHeaders this ++ headers, req_timeout = timeout this\<rparr>"

definition post ::
  "HttpClient \<Rightarrow> transport \<Rightarrow> int \<Rightarrow> int \<Rightarrow> jsval \<Rightarrow> jsval \<Rightarrow> (string \<rightharpoonup> string)
     \<Rightarrow> js_error + obj" where
  "post this tr startTime endTime endpoint data headers =
     (case tr (post_request this endpoint data headers) of
        Inr response \<Rightarrow> Inr (addTimingInfo response startTime endTime)
      | Inl error \<Rightarrow> handleError this error startTime endTime)"

definition put_request ::
  "HttpClient \<Rightarrow> jsval \<Rightarrow> jsval \<Rightarrow> (string \<rightharpoonup> string) \<Rightarrow> request" where
  "put_request this endpoint data headers =
     \<lparr>req_method = PUT, req_url = buildUrl this endpoint,
      req_body = Some (default_data data),
      req_headers = defaultHeaders this ++ headers, req_timeout = timeout this\<rparr>"

definition put ::
  "HttpClient \<Rightarrow> transport \<Rightarrow> int \<Rightarrow> int \<Rightarrow> jsval \<Rightarrow> jsval \<Rightarrow> (string \<rightharpoonup> string)
     \<Rightarrow> js_error + obj" where
  "put this tr startTime endTime endpoint data headers =
     (case tr (put_request this endpoint data headers) of
        Inr response \<Rightarrow> Inr (addTimingInfo response startTime endTime)
      | Inl error \<Rightarrow> handleError this error startTime endTime)"

definition patch_request ::
  "HttpClient \<Rightarrow> jsval \<Rightarrow> jsval \<Rightarrow> (string \<rightharpoonup> string) \<Rightarrow> request" where
  "patch_request this endpoint data headers =
     \<lparr>req_method = PATCH, req_url = buildUrl this endpoint,
      req_body = Some (default_data data),
      req_headers = defaultHeaders this ++ headers, req_timeout = timeout this\<rparr>"

definition patch ::
  "HttpClient \<Rightarrow> transport \<Rightarrow> int \<Rightarrow> int \<Rightarrow> jsval \<Rightarrow> jsval \<Rightarrow> (string \<rightharpoonup> string)
     \<Rightarrow> js_error + obj" where
  "patch this tr startTime endTime endpoint data headers =
     (case tr (patch_request this endpoint data headers) of
        Inr response \<Rightarrow> Inr (addTimingInfo response startTime endTime)
      | Inl error \<Rightarrow> handleError this error startTime endTime)"

definition delete_request :: "HttpClient \<Rightarrow> jsval \<Rightarrow> (string \<rightharpoonup> string) \<Rightarrow> request" where
  "delete_request this endpoint headers =
     \<lparr>req_method = DELETE, req_url = buildUrl this endpoint, req_body = None,
      req_headers = defaultHeaders this ++ headers, req_timeout = timeout this\<rparr>"

definition delete ::
  "HttpClient \<Rightarrow> transport \<Rightarrow> int \<Rightarrow> int \<Rightarrow> jsval \<Rightarrow> (string \<rightharpoonup> string) \<Rightarrow> js_error + obj" where
  "delete this tr startTime endTime endpoint headers =
     (case tr (delete_request this endpoint headers) of
        Inr response \<Rightarrow> Inr (addTimingInfo response startTime endTime)
      | Inl error \<Rightarrow> handleError this error startTime endTime)"

text \<open>
  The five calls of one client with the same arguments, each paired with the request
  it hands to the transport. A property of every verb operation is a property of every
  member of this list.
\<close>

definition verb_calls ::
  "HttpClient \<Rightarrow> transport \<Rightarrow> int \<Rightarrow> int \<Rightarrow> jsval \<Rightarrow> jsval \<Rightarrow> (string \<rightharpoonup> string)
     \<Rightarrow> (request \<times> (js_error + obj)) list" where
  "verb_calls this tr startTime endTime endpoint data headers =
     [(get_request this endpoint headers, get this tr startTime endTime endpoint headers),
      (post_request this endpoint data headers, post this tr startTime endTime endpoint data headers),
      (put_request this endpoint data headers, put this tr startTime endTime endpoint data headers),
      (patch_request this endpoint data headers, patch this tr startTime endTime endpoint data headers),
      (delete_request this endpoint headers, delete this tr startTime endTime endpoint headers)]"

text \<open>A fake transport for examples: it answers every request with status 200 and the
  requested URL as body.\<close>

definition echo_transport :: transport where
  "echo_transport req = Inr [(''status'', JNum 200), (''body'', JStr (req_url req))]"

section \<open>The retry helper\<close>

text \<open>
  The operation retried is a zero-argument function with effects: invoked in a state
  of its environment, it resolves (\<open>Inr\<close>) or rejects (\<open>Inl\<close>) and leaves a new state.
  The helper's own effects are recorded in a trace: each invocation of the operation
  and each sleep with its duration, in order.
  The loop that ends without returning (a negative \<open>maxRetries\<close>) resolves with
  undefined, the result \<open>Inr None\<close>.
\<close>

datatype event = Called | Slept int

function retry_loop ::
  "('s \<Rightarrow> ('e + 'a) \<times> 's) \<Rightarrow> int \<Rightarrow> int \<Rightarrow> nat \<Rightarrow> 's \<times> event list
     \<Rightarrow> ('e + 'a option) \<times> 's \<times> event list" where
  "retry_loop fn maxRetries delay i (s, trace) =
     (if int i \<le> maxRetries then
        (case fn s of
           (Inr v, s') \<Rightarrow> (Inr (Some v), s', trace @ [Called])
         | (Inl error, s') \<Rightarrow>
             (let lastError = error in
              if int i = maxRetries then (Inl lastError, s', trace @ [Called])
              else retry_loop fn maxRetries delay (Suc i)
                     (s', trace @ [Called, Slept (delay * 2 ^ i)])))
      else (Inr None, s, trace))"
  by pat_completeness auto
termination
  by (relation "measure (\<lambda>(fn, maxRetries, delay, i, w). nat (maxRetries + 1 - int i))") auto

declare retry_loop.simps [simp del]

definition retry ::
  "('s \<Rightarrow> ('e + 'a) \<times> 's) \<Rightarrow> int \<Rightarrow> int \<Rightarrow> 's \<Rightarrow> ('e + 'a option) \<times> 's \<times> event list" where
  "retry fn maxRetries delay s = retry_loop fn maxRetries delay 0 (s, [])"

text \<open>What a trace says: how often the operation was invoked, and the sleeps in order.\<close>

definition invocations :: "event list \<Rightarrow> nat" where
  "invocations trace = length (filter (\<lambda>e. e = Called) trace)"

fun delays :: "event list \<Rightarrow> int list" where
  "delays [] = []"
| "delays (Called # es) = delays es"
| "delays (Slept d # es) = d # delays es"

text \<open>
  The run of an operation from a state: the state in which its \<open>n\<close>-th invocation
  (counted from 0) starts, and the outcome of that invocation.
\<close>

fun state_before :: "('s \<Rightarrow> ('e + 'a) \<times> 's) \<Rightarrow> 's \<Rightarrow> nat \<Rightarrow> 's" where
  "state_before fn s 0 = s"
| "state_before fn s (Suc n) = snd (fn (state_before fn s n))"

definition outcome :: "('s \<Rightarrow> ('e + 'a) \<times> 's) \<Rightarrow> 's \<Rightarrow> nat \<Rightarrow> 'e + 'a" where
  "outcome fn s n = fst (fn (state_before fn s n))"

text \<open>
  The trace of a run that ends with its \<open>n\<close>-th invocation (counted from 0): each of
  the \<open>n\<close> earlier invocations is followed by a sleep of \<open>delay * 2 ^ i\<close>.
\<close>

definition backoff_trace :: "int \<Rightarrow> nat \<Rightarrow> event list" where
  "backoff_trace delay n = concat (map (\<lambda>i. [Called, Slept (delay * 2 ^ i)]) [0..<n]) @ [Called]"

section \<open>Fixtures for the examples\<close>

text \<open>An operation that counts its invocations, rejects the first two and resolves
  from the third on.\<close>

definition flaky :: "nat \<Rightarrow> (string + int) \<times> nat" where
  "flaky n = (if n < 2 then Inl (''failure '' @ show_nat n) else Inr 42, Suc n)"

text \<open>Transports that reject every request: with a 404 response, with a 503 response,
  with a timeout, and with a connection failure.\<close>

definition not_found_transport :: transport where
  "not_found_transport req =
     Inl \<lparr>err_name = ''Error'', err_message = ''Not Found'',
          err_response = Some [(''status'', JNum 404), (''body'', JObj [])],
          err_timeout = JUndefined\<rparr>"

definition unavailable_transport :: transport where
  "unavailable_transport req =
     Inl \<lparr>err_name = ''Error'', err_message = ''Service Unavailable'',
          err_response = Some [(''status'', JNum 503), (''body'', JObj [])],
          err_timeout = JUndefined\<rparr>"

definition timeout_transport :: transport where
  "timeout_transport req =
     Inl \<lparr>err_name = ''Error'', err_message = ''Timeout of 10000ms exceeded'',
          err_response = None, err_timeout = JNum 10000\<rparr>"

definition network_transport :: transport where
  "network_transport req =
     Inl \<lparr>err_name = ''Error'', err_message = ''getaddrinfo ENOTFOUND'',
          err_response = None, err_timeout = JUndefined\<rparr>"

text \<open>A transport that answers every request with status 200 and, as body, the
  \<^verbatim>\<open>Authorization\<close> header it received (null when there is none).\<close>

definition auth_echo_transport :: transport where
  "auth_echo_transport req =
     Inr [(''status'', JNum 200),
          (''body'', case req_headers req ''Authorization'' of
                       Some v \<Rightarrow> JStr v
                     | None \<Rightarrow> JNull)]"

section \<open>Auxiliary facts\<close>

lemma seq_Inl: "seq a b = Inl e \<Longrightarrow> a = Inl e \<or> b = Inl e"
  by (auto simp: seq_def split: sum.splits)

lemma seq_Inr: "(seq a b = Inr x) = (a = Inr () \<and> b = Inr x)"
  by (auto simp: seq_def split: sum.splits)

lemma expect_a_Inl: "expect_a v t = Inl e \<Longrightarrow> \<exists>m. e = AssertionError m"
  by (auto simp: expect_a_def split: if_splits)

lemma expect_a_Inr: "(expect_a v t = Inr ()) = (type_detect v = t)"
  by (simp add: expect_a_def)

lemma expect_property_Inl: "expect_property v k = Inl e \<Longrightarrow> \<exists>m. e = AssertionError m"
  by (cases v) (auto simp: expect_property_def split: if_splits)

lemma expect_property_a_Inl: "expect_property_a v k t = Inl e \<Longrightarrow> \<exists>m. e = AssertionError m"
  by (auto simp: expect_property_a_def bind_def split: sum.splits
      dest: expect_a_Inl expect_property_Inl)

lemma expect_property_a_Inr:
  "(expect_property_a (JObj kvs) k t = Inr ()) = (\<exists>x. map_of kvs k = Some x \<and> type_detect x = t)"
  by (auto simp: expect_property_a_def expect_property_def bind_def expect_a_def)

lemma verb_calls_settle:
  "(req, res) \<in> set (verb_calls this tr startTime endTime endpoint data headers) \<Longrightarrow>
     res = (case tr req of
              Inr response \<Rightarrow> Inr (addTimingInfo response startTime endTime)
            | Inl error \<Rightarrow> handleError this error startTime endTime)"
  by (auto simp: verb_calls_def get_def post_def put_def patch_def delete_def)

lemma verb_calls_headers:
  "(req, res) \<in> set (verb_calls this tr startTime endTime endpoint data headers) \<Longrightarrow>
     req_headers req = defaultHeaders this ++ headers"
  by (auto simp: verb_calls_def get_request_def post_request_def put_request_def
      patch_request_def delete_request_def)

lemma get_in_verb_calls:
  "(get_request this endpoint headers, get this tr startTime endTime endpoint headers)
     \<in> set (verb_calls this tr startTime endTime endpoint data headers)"
  by (simp add: verb_calls_def)

section \<open>Response time validation\<close>

text \<open>
  A response whose recorded duration is a number other than zero passes
  \<open>validateResponseTime\<close> exactly when the duration is at most the bound.
\<close>

lemma validateResponseTime_nonzero:
  assumes "map_of kvs ''duration'' = Some (JNum d)" and "d \<noteq> 0"
  shows "(validateResponseTime (JObj kvs) maxTime = Inr ()) = (d \<le> maxTime)"
  using assms by (simp add: validateResponseTime_def responseTime_def bind_def js_le_def)

text \<open>
  C3. The claim: \<open>validateResponseTime\<close> passes if and only if the recorded duration is
  at most the bound, in particular when the duration is 0 and the bound is not negative.
  The code does otherwise at duration 0: the assertion reads
  \<^verbatim>\<open>obj.duration || obj.responseTime\<close>, the duration 0 is falsy, so the time compared is
  the missing \<^verbatim>\<open>responseTime\<close> property, and the comparison of undefined with the bound
  is false. A response with duration 0 fails the check against the bound 3000, and the
  client returns such a response when both readings of the clock are equal.
\<close>

theorem validateResponseTime_zero_duration:
  "validateResponseTime
     (JObj [(''status'', JNum 200), (''body'', JObj []),
            (''headers'', JObj [(''content-type'', JStr ''application/json'')]),
            (''duration'', JNum 0)]) 3000
   = Inl (AssertionError ''expected response time to be <= 3000ms but got undefinedms'')
   \<and> get (new_HttpClient ''http://h'') echo_transport 7 7 (JStr ''/users'') Map.empty
     = Inr [(''status'', JNum 200), (''body'', JStr ''http://h/users''), (''duration'', JNum 0)]
   \<and> validateResponseTime
       (JObj [(''status'', JNum 200), (''body'', JStr ''http://h/users''), (''duration'', JNum 0)])
       3000
     = Inl (AssertionError ''expected response time to be <= 3000ms but got undefinedms'')"
  by (simp add: validateResponseTime_def responseTime_def bind_def js_le_def show_int_def
      show_nat.simps digit_char_def get_def get_request_def echo_transport_def
      addTimingInfo_def buildUrl_def new_HttpClient_def)

section \<open>Header merging\<close>

text \<open>
  C5. Header merging is right-biased. The request each verb operation hands to the
  transport carries, under every header name, the value of the per-call mapping when
  that mapping has the name and the default value otherwise; its header names are those
  of the defaults together with those of the per-call mapping. In particular, defaults
  A = 1 merged with overrides A = 2, B = 3 are sent as A = 2, B = 3.
\<close>

theorem header_merge_right_biased:
  "(\<forall>(req, res) \<in> set (verb_calls this tr startTime endTime endpoint data headers).
      (\<forall>k. req_headers req k
            = (case headers k of Some v \<Rightarrow> Some v | None \<Rightarrow> defaultHeaders this k))
      \<and> dom (req_headers req) = dom (defaultHeaders this) \<union> dom headers
      \<and> res = (case tr req of
                 Inr response \<Rightarrow> Inr (addTimingInfo response startTime endTime)
               | Inl error \<Rightarrow> handleError this error startTime endTime))
   \<and> req_headers
        (get_request \<lparr>baseUrl = u, defaultHeaders = [''A'' \<mapsto> ''1''], timeout = t\<rparr> endpoint
           [''A'' \<mapsto> ''2'', ''B'' \<mapsto> ''3''])
      = [''A'' \<mapsto> ''2'', ''B'' \<mapsto> ''3'']"
  by (auto simp: verb_calls_def get_def post_def put_def patch_def delete_def
      get_request_def post_request_def put_request_def
      patch_request_def delete_request_def map_add_def split: option.splits)

theorem header_merge_right_biased_witness:
  "req_headers (get_request (new_HttpClient ''http://h'') (JStr ''/users'')
      [''Accept'' \<mapsto> ''text/html'']) ''Accept'' = Some ''text/html''
   \<and> req_headers (get_request (new_HttpClient ''http://h'') (JStr ''/users'')
      [''Accept'' \<mapsto> ''text/html'']) ''Content-Type'' = Some ''application/json''"
proof -
  let ?c = "new_HttpClient ''http://h''"
  let ?h = "[''Accept'' \<mapsto> ''text/html'']"
  have "\<forall>k. req_headers (get_request ?c (JStr ''/users'') ?h) k
          = (case ?h k of Some v \<Rightarrow> Some v | None \<Rightarrow> defaultHeaders ?c k)"
    using header_merge_right_biased [of ?c echo_transport 0 1 "JStr ''/users''" JUndefined ?h]
      get_in_verb_calls [of ?c "JStr ''/users''" ?h echo_transport 0 1 JUndefined]
    by fastforce
  then show ?thesis
    by (simp add: new_HttpClient_def config_defaultHeaders_def)
qed

section \<open>The two wrappers\<close>

lemma is_substring_prefix: "is_substring s (s @ t)"
  unfolding is_substring_def list_ex_iff
  by (rule bexI [of _ 0]) simp_all

lemma json_content_type:
  "expect_include (JStr (''application/json'' @ t)) ''application/json'' = Inr ()"
  using is_substring_prefix [of "''application/json''" t] by simp

lemma BaseApiClient_accepts_json_200:
  "BaseApiClient_validateSuccessResponse
     (JObj [(''status'', JNum 200), (''body'', b),
            (''headers'', JObj [(''content-type'', JStr (''application/json'' @ t))]),
            (''duration'', JNum d)]) 200 = Inr b"
  using json_content_type [of t]
  by (simp add: BaseApiClient_validateSuccessResponse_def validateBasicResponse_def
      validateJsonContentType_def expect_exist_def expect_property_def expect_equal_def
      bind_def seq_def)

lemma BasePageObject_validateAndGetBody_eq:
  "BasePageObject_validateAndGetBody response expectedStatus
   = BaseApiClient_validateSuccessResponse response expectedStatus"
  by (simp add: BasePageObject_validateAndGetBody_def BaseApiClient_validateSuccessResponse_def)

text \<open>
  The claim C6 as stated fails: the page-object wrapper also checks the response time
  against 3000 ms. A response that took 5000 ms is accepted by the resource-client
  wrapper and rejected by the page-object wrapper.
\<close>

theorem wrappers_differ_on_slow_response:
  "BaseApiClient_validateSuccessResponse
     (JObj [(''status'', JNum 200), (''body'', JObj [(''id'', JNum 1)]),
            (''headers'', JObj [(''content-type'', JStr ''application/json; charset=utf-8'')]),
            (''duration'', JNum 5000)]) 200 = Inr (JObj [(''id'', JNum 1)])
   \<and> BasePageObject_validateSuccessResponse
     (JObj [(''status'', JNum 200), (''body'', JObj [(''id'', JNum 1)]),
            (''headers'', JObj [(''content-type'', JStr ''application/json; charset=utf-8'')]),
            (''duration'', JNum 5000)]) 200
     = Inl (AssertionError ''expected response time to be <= 3000ms but got 5000ms'')"
proof -
  let ?r = "JObj [(''status'', JNum 200), (''body'', JObj [(''id'', JNum 1)]),
            (''headers'', JObj [(''content-type'', JStr ''application/json; charset=utf-8'')]),
            (''duration'', JNum 5000)]"
  have a: "BaseApiClient_validateSuccessResponse ?r 200 = Inr (JObj [(''id'', JNum 1)])"
    using BaseApiClient_accepts_json_200 [of "JObj [(''id'', JNum 1)]" "''; charset=utf-8''" 5000]
    by simp
  have b: "validateResponseTime ?r 3000
    = Inl (AssertionError ''expected response time to be <= 3000ms but got 5000ms'')"
    by (simp add: validateResponseTime_def responseTime_def bind_def js_le_def show_int_def
        show_nat.simps digit_char_def)
  show ?thesis
    using a b
    by (simp add: BasePageObject_validateSuccessResponse_def BasePageObject_validateAndGetBody_eq
        BasePageObject_validateResponseTime_def bind_def seq_def)
qed

text \<open>
  C6, amended. The page-object wrapper accepts exactly the responses that the
  resource-client wrapper accepts and that also pass the response-time check against
  3000 ms, and on those both return the same body.
\<close>

theorem page_object_adds_time_check:
  "(BasePageObject_validateSuccessResponse response expectedStatus = Inr body)
     = (BaseApiClient_validateSuccessResponse response expectedStatus = Inr body
        \<and> validateResponseTime response 3000 = Inr ())"
  by (cases "BaseApiClient_validateSuccessResponse response expectedStatus";
      cases "validateResponseTime response 3000")
    (simp_all add: BasePageObject_validateSuccessResponse_def BasePageObject_validateAndGetBody_eq
      BasePageObject_validateResponseTime_def bind_def seq_def)

theorem page_object_adds_time_check_witness:
  "BasePageObject_validateSuccessResponse
     (JObj [(''status'', JNum 200), (''body'', JObj [(''id'', JNum 1)]),
            (''headers'', JObj [(''content-type'', JStr ''application/json'')]),
            (''duration'', JNum 120)]) 200 = Inr (JObj [(''id'', JNum 1)])"
proof -
  let ?r = "JObj [(''status'', JNum 200), (''body'', JObj [(''id'', JNum 1)]),
            (''headers'', JObj [(''content-type'', JStr ''application/json'')]),
            (''duration'', JNum 120)]"
  have "BaseApiClient_validateSuccessResponse ?r 200 = Inr (JObj [(''id'', JNum 1)])"
    using BaseApiClient_accepts_json_200 [of "JObj [(''id'', JNum 1)]" "[]" 120] by simp
  moreover have "validateResponseTime ?r 3000 = Inr ()"
    by (simp add: validateResponseTime_def responseTime_def bind_def js_le_def)
  ultimately show ?thesis
    using page_object_adds_time_check [of ?r 200 "JObj [(''id'', JNum 1)]"] by simp
qed

section \<open>Missing endpoint\<close>

text \<open>
  The claim C7 as stated fails: no verb operation checks its endpoint argument. Called
  without an endpoint, \<open>get\<close> requests the base URL followed by the text
  \<^verbatim>\<open>undefined\<close> and returns the response.
\<close>

theorem missing_endpoint_is_requested:
  "get (new_HttpClient config_baseUrls_jsonplaceholder) echo_transport 100 105 JUndefined Map.empty
   = Inr [(''status'', JNum 200),
          (''body'', JStr ''https://jsonplaceholder.typicode.comundefined''),
          (''duration'', JNum 5)]"
  by (simp add: get_def get_request_def echo_transport_def new_HttpClient_def buildUrl_def
      config_baseUrls_jsonplaceholder_def addTimingInfo_def)

text \<open>
  C7, amended. A verb operation called with a missing endpoint raises no precondition
  error: it hands the transport a request for the base URL followed by the text
  \<^verbatim>\<open>undefined\<close>, returns the timed response when the transport resolves, and raises
  what \<open>handleError\<close> raises when the transport rejects.
\<close>

theorem missing_endpoint_not_rejected:
  "\<forall>(req, res) \<in> set (verb_calls this tr startTime endTime JUndefined data headers).
     req_url req = baseUrl this @ ''undefined''
     \<and> (\<forall>response. tr req = Inr response
           \<longrightarrow> res = Inr (addTimingInfo response startTime endTime))
     \<and> (\<forall>error. tr req = Inl error \<longrightarrow> res = handleError this error startTime endTime)"
  by (auto simp: verb_calls_def get_def post_def put_def patch_def delete_def
      get_request_def post_request_def put_request_def
      patch_request_def delete_request_def buildUrl_def)

theorem missing_endpoint_not_rejected_witness:
  "req_url (get_request (new_HttpClient ''http://h'') JUndefined Map.empty) = ''http://hundefined''
   \<and> get (new_HttpClient ''http://h'') echo_transport 7 9 JUndefined Map.empty
     = Inr [(''status'', JNum 200), (''body'', JStr ''http://hundefined''), (''duration'', JNum 2)]"
proof -
  let ?c = "new_HttpClient ''http://h''"
  let ?req = "get_request ?c JUndefined Map.empty"
  let ?res = "get ?c echo_transport 7 9 JUndefined Map.empty"
  have "req_url ?req = baseUrl ?c @ ''undefined''
     \<and> (\<forall>response. echo_transport ?req = Inr response
           \<longrightarrow> ?res = Inr (addTimingInfo response 7 9))"
    using missing_endpoint_not_rejected [of ?c echo_transport 7 9 JUndefined Map.empty]
      get_in_verb_calls [of ?c JUndefined Map.empty echo_transport 7 9 JUndefined]
    by fastforce
  then show ?thesis
    by (simp add: echo_transport_def new_HttpClient_def addTimingInfo_def)
qed

section \<open>The User schema validator\<close>

lemma validateUserSchema_Inl:
  "validateUserSchema u = Inl e \<Longrightarrow> \<exists>m. e = AssertionError m"
  unfolding validateUserSchema_def
  by (auto dest!: seq_Inl dest: expect_a_Inl expect_property_a_Inl)

lemma validateUserSchema_Inr:
  "(validateUserSchema u = Inr ()) =
     (\<exists>kvs. u = JObj kvs
        \<and> (\<exists>x. map_of kvs ''id'' = Some x \<and> type_detect x = ''number'')
        \<and> (\<exists>x. map_of kvs ''name'' = Some x \<and> type_detect x = ''string'')
        \<and> (\<exists>x. map_of kvs ''username'' = Some x \<and> type_detect x = ''string'')
        \<and> (\<exists>x. map_of kvs ''email'' = Some x \<and> type_detect x = ''string'')
        \<and> (\<exists>x. map_of kvs ''phone'' = Some x \<and> type_detect x = ''string'')
        \<and> (\<exists>x. map_of kvs ''website'' = Some x \<and> type_detect x = ''string'')
        \<and> (\<exists>x. map_of kvs ''address'' = Some x \<and> type_detect x = ''object'')
        \<and> (\<exists>x. map_of kvs ''company'' = Some x \<and> type_detect x = ''object''))"
proof (cases u)
  case (JObj kvs)
  then show ?thesis
    by (simp add: validateUserSchema_def seq_Inr expect_property_a_Inr expect_a_Inr)
qed (simp_all add: validateUserSchema_def seq_Inr expect_a_Inr)

text \<open>
  C8. The User schema validator raises an assertion failure on every value that lacks
  one of the eight required fields, and completes on every object in which \<open>id\<close> is a
  number, \<open>name\<close>, \<open>username\<close>, \<open>email\<close>, \<open>phone\<close> and \<open>website\<close> are strings and
  \<open>address\<close> and \<open>company\<close> are objects, whatever other fields the object carries.
\<close>

theorem validateUserSchema_required_fields:
  "((\<exists>k \<in> set [''id'', ''name'', ''username'', ''email'', ''phone'', ''website'',
                 ''address'', ''company'']. \<not> has_property u k)
      \<longrightarrow> (\<exists>m. validateUserSchema u = Inl (AssertionError m)))
   \<and> ((\<exists>n. map_of kvs ''id'' = Some (JNum n))
        \<and> (\<exists>s. map_of kvs ''name'' = Some (JStr s))
        \<and> (\<exists>s. map_of kvs ''username'' = Some (JStr s))
        \<and> (\<exists>s. map_of kvs ''email'' = Some (JStr s))
        \<and> (\<exists>s. map_of kvs ''phone'' = Some (JStr s))
        \<and> (\<exists>s. map_of kvs ''website'' = Some (JStr s))
        \<and> (\<exists>a. map_of kvs ''address'' = Some (JObj a))
        \<and> (\<exists>c. map_of kvs ''company'' = Some (JObj c))
      \<longrightarrow> validateUserSchema (JObj kvs) = Inr ())"
proof (intro conjI impI)
  assume lacks: "\<exists>k \<in> set [''id'', ''name'', ''username'', ''email'', ''phone'', ''website'',
                 ''address'', ''company'']. \<not> has_property u k"
  have "validateUserSchema u \<noteq> Inr ()"
  proof
    assume "validateUserSchema u = Inr ()"
    then obtain kvs where u: "u = JObj kvs"
      and "map_of kvs ''id'' \<noteq> None" "map_of kvs ''name'' \<noteq> None"
      "map_of kvs ''username'' \<noteq> None" "map_of kvs ''email'' \<noteq> None"
      "map_of kvs ''phone'' \<noteq> None" "map_of kvs ''website'' \<noteq> None"
      "map_of kvs ''address'' \<noteq> None" "map_of kvs ''company'' \<noteq> None"
      unfolding validateUserSchema_Inr by auto
    with lacks show False by auto
  qed
  then obtain e where "validateUserSchema u = Inl e"
    by (cases "validateUserSchema u") auto
  with validateUserSchema_Inl [of u e] show "\<exists>m. validateUserSchema u = Inl (AssertionError m)"
    by auto
next
  assume "(\<exists>n. map_of kvs ''id'' = Some (JNum n))
        \<and> (\<exists>s. map_of kvs ''name'' = Some (JStr s))
        \<and> (\<exists>s. map_of kvs ''username'' = Some (JStr s))
        \<and> (\<exists>s. map_of kvs ''email'' = Some (JStr s))
        \<and> (\<exists>s. map_of kvs ''phone'' = Some (JStr s))
        \<and> (\<exists>s. map_of kvs ''website'' = Some (JStr s))
        \<and> (\<exists>a. map_of kvs ''address'' = Some (JObj a))
        \<and> (\<exists>c. map_of kvs ''company'' = Some (JObj c))"
  then show "validateUserSchema (JObj kvs) = Inr ()"
    unfolding validateUserSchema_Inr by auto
qed

theorem validateUserSchema_required_fields_witness:
  "(\<exists>m. validateUserSchema
          (JObj [(''id'', JNum 1), (''name'', JStr ''Leanne''), (''username'', JStr ''Bret''),
                 (''email'', JStr ''a@b.com''), (''phone'', JStr ''1-770''),
                 (''address'', JObj []), (''company'', JObj [])]) = Inl (AssertionError m))
   \<and> validateUserSchema
          (JObj [(''id'', JNum 1), (''name'', JStr ''Leanne''), (''username'', JStr ''Bret''),
                 (''email'', JStr ''a@b.com''), (''phone'', JStr ''1-770''),
                 (''website'', JStr ''hildegard.org''), (''address'', JObj []),
                 (''company'', JObj []), (''nickname'', JNull)]) = Inr ()"
  using validateUserSchema_required_fields
    [of "JObj [(''id'', JNum 1), (''name'', JStr ''Leanne''), (''username'', JStr ''Bret''),
                 (''email'', JStr ''a@b.com''), (''phone'', JStr ''1-770''),
                 (''address'', JObj []), (''company'', JObj [])]"
        "[(''id'', JNum 1), (''name'', JStr ''Leanne''), (''username'', JStr ''Bret''),
                 (''email'', JStr ''a@b.com''), (''phone'', JStr ''1-770''),
                 (''website'', JStr ''hildegard.org''), (''address'', JObj []),
                 (''company'', JObj []), (''nickname'', JNull)]"]
  by simp

section \<open>Expecting a client error\<close>

lemma clientErrorStatus_Inl:
  "clientErrorStatus (JObj r) = Inl e \<Longrightarrow> \<exists>m. e = AssertionError m"
  by (auto simp: clientErrorStatus_def bind_def split: if_splits sum.splits)

lemma expect_equal_Inl: "expect_equal v n = Inl e \<Longrightarrow> \<exists>m. e = AssertionError m"
  by (auto simp: expect_equal_def split: if_splits)

text \<open>
  The claim C10 as stated fails at the expected status 0: the range assertion reads
  \<^verbatim>\<open>status || statusCode\<close>, so a response with status 0 and status code 404 passes
  it, its status equals 0, and the response is returned although its status is not in
  the range 400 to 499.
\<close>

theorem expectClientError_returns_status_zero:
  "BaseApiClient_expectClientError
     (\<lambda>u. (Inl \<lparr>err_name = ''Error'', err_message = ''Not Found'',
                 err_response = Some [(''status'', JNum 0), (''statusCode'', JNum 404)],
                 err_timeout = JUndefined\<rparr> :: js_error + jsval)) 0
   = Inr (JObj [(''status'', JNum 0), (''statusCode'', JNum 404)])"
  by (simp add: BaseApiClient_expectClientError_def clientErrorStatus_def bind_def seq_def
      expect_equal_def js_ge_def js_lt_def)

text \<open>
  C10, amended. For every request function and every expected status: when the request
  function resolves, \<open>expectClientError\<close> raises an error; when it rejects with an error
  that carries a response, \<open>expectClientError\<close> returns that response if the response's
  status equals the expected status and the status the range assertion reads lies in
  the range 400 to 499, and raises an assertion failure otherwise; when it rejects with
  an error that carries no response, that same error is raised. The status the range
  assertion reads is \<^verbatim>\<open>status || statusCode\<close>: the status itself unless it is 0, the
  status code when it is 0.
\<close>

theorem expectClientError_behaviour:
  "(\<forall>v. requestFn () = Inr v \<longrightarrow>
       BaseApiClient_expectClientError requestFn expectedStatus
       = Inl (new_Error ''Expected request to fail but it succeeded''))
   \<and> (\<forall>e r. requestFn () = Inl e \<and> err_response e = Some r \<longrightarrow>
       (if map_of r ''status'' = Some (JNum expectedStatus)
           \<and> (if expectedStatus = 0
               then js_ge (case map_of r ''statusCode'' of Some c \<Rightarrow> c | None \<Rightarrow> JUndefined) 400
                    \<and> js_lt (case map_of r ''statusCode'' of Some c \<Rightarrow> c | None \<Rightarrow> JUndefined) 500
               else 400 \<le> expectedStatus \<and> expectedStatus < 500)
        then BaseApiClient_expectClientError requestFn expectedStatus = Inr (JObj r)
        else \<exists>m. BaseApiClient_expectClientError requestFn expectedStatus
                  = Inl (AssertionError m)))
   \<and> (\<forall>e. requestFn () = Inl e \<and> err_response e = None \<longrightarrow>
       BaseApiClient_expectClientError requestFn expectedStatus = Inl e)"
proof (intro conjI allI impI)
  fix v assume "requestFn () = Inr v"
  then show "BaseApiClient_expectClientError requestFn expectedStatus
       = Inl (new_Error ''Expected request to fail but it succeeded'')"
    by (simp add: BaseApiClient_expectClientError_def new_Error_def)
next
  fix e assume "requestFn () = Inl e \<and> err_response e = None"
  then show "BaseApiClient_expectClientError requestFn expectedStatus = Inl e"
    by (simp add: BaseApiClient_expectClientError_def)
next
  fix e r assume rej: "requestFn () = Inl e \<and> err_response e = Some r"
  let ?res = "BaseApiClient_expectClientError requestFn expectedStatus"
  let ?sc = "case map_of r ''statusCode'' of Some c \<Rightarrow> c | None \<Rightarrow> JUndefined"
  let ?ok = "map_of r ''status'' = Some (JNum expectedStatus)
           \<and> (if expectedStatus = 0 then js_ge ?sc 400 \<and> js_lt ?sc 500
               else 400 \<le> expectedStatus \<and> expectedStatus < 500)"
  have unfold: "?res = seq (clientErrorStatus (JObj r))
            (bind (get_prop (JObj r) ''status'') (\<lambda>status.
             seq (expect_equal status expectedStatus) (Inr (JObj r))))"
    using rej by (simp add: BaseApiClient_expectClientError_def)
  have range: "map_of r ''status'' = Some (JNum expectedStatus) \<Longrightarrow>
      (clientErrorStatus (JObj r) = Inr ())
      = (if expectedStatus = 0 then js_ge ?sc 400 \<and> js_lt ?sc 500
         else 400 \<le> expectedStatus \<and> expectedStatus < 500)"
    by (simp add: clientErrorStatus_def bind_def js_ge_def js_lt_def)
  show "if ?ok then ?res = Inr (JObj r) else \<exists>m. ?res = Inl (AssertionError m)"
  proof (cases ?ok)
    case True
    then have "clientErrorStatus (JObj r) = Inr ()"
      using range by simp
    with True show ?thesis
      unfolding unfold by (simp add: bind_def seq_def expect_equal_def)
  next
    case False
    have "?res \<noteq> Inr (JObj r)"
    proof
      assume "?res = Inr (JObj r)"
      then have a: "clientErrorStatus (JObj r) = Inr ()"
        and b: "map_of r ''status'' = Some (JNum expectedStatus)"
        unfolding unfold
        by (auto simp: seq_def bind_def expect_equal_def
            split: sum.splits option.splits if_splits)
      from a b range have ?ok by simp
      with False show False by simp
    qed
    moreover have "\<And>x. ?res = Inr x \<Longrightarrow> x = JObj r"
      unfolding unfold by (auto simp: seq_def bind_def split: sum.splits)
    ultimately obtain err where err: "?res = Inl err"
      by (cases ?res) auto
    then have "\<exists>m. err = AssertionError m"
      unfolding unfold
      by (auto simp: bind_def dest!: seq_Inl dest: clientErrorStatus_Inl expect_equal_Inl)
    with err show ?thesis using False by auto
  qed
qed

theorem expectClientError_behaviour_witness:
  "BaseApiClient_expectClientError
     (\<lambda>u. get (new_HttpClient ''http://h'') not_found_transport 0 3 (JStr ''/users/9999'') Map.empty)
     404
     = Inr (JObj [(''status'', JNum 404), (''body'', JObj []), (''duration'', JNum 3)])
   \<and> BaseApiClient_expectClientError
     (\<lambda>u. get (new_HttpClient ''http://h'') echo_transport 0 3 (JStr ''/users/1'') Map.empty) 404
     = Inl (new_Error ''Expected request to fail but it succeeded'')
   \<and> (\<exists>m. BaseApiClient_expectClientError
     (\<lambda>u. get (new_HttpClient ''http://h'') unavailable_transport 0 3 (JStr ''/users/1'') Map.empty)
     404
     = Inl (AssertionError m))
   \<and> BaseApiClient_expectClientError
     (\<lambda>u. get (new_HttpClient ''http://h'') timeout_transport 0 3 (JStr ''/users/1'') Map.empty) 404
     = Inl (new_Error ''Request timeout after 10000ms'')"
proof -
  let ?c = "new_HttpClient ''http://h''"
  have g1: "get ?c not_found_transport 0 3 (JStr ''/users/9999'') Map.empty
    = Inl \<lparr>err_name = ''Error'', err_message = ''Not Found'',
          err_response = Some [(''status'', JNum 404), (''body'', JObj []), (''duration'', JNum 3)],
          err_timeout = JUndefined\<rparr>"
    by (simp add: get_def not_found_transport_def handleError_def addTimingInfo_def)
  have g2: "get ?c echo_transport 0 3 (JStr ''/users/1'') Map.empty
    = Inr [(''status'', JNum 200), (''body'', JStr ''http://h/users/1''), (''duration'', JNum 3)]"
    by (simp add: get_def get_request_def echo_transport_def addTimingInfo_def buildUrl_def
        new_HttpClient_def)
  have g3: "get ?c unavailable_transport 0 3 (JStr ''/users/1'') Map.empty
    = Inl \<lparr>err_name = ''Error'', err_message = ''Service Unavailable'',
          err_response = Some [(''status'', JNum 503), (''body'', JObj []), (''duration'', JNum 3)],
          err_timeout = JUndefined\<rparr>"
    by (simp add: get_def unavailable_transport_def handleError_def addTimingInfo_def)
  have g4: "get ?c timeout_transport 0 3 (JStr ''/users/1'') Map.empty
    = Inl (new_Error ''Request timeout after 10000ms'')"
    by (simp add: get_def timeout_transport_def handleError_def new_HttpClient_def
        config_timeout_def show_int_def show_nat.simps digit_char_def)
  show ?thesis
    using
      expectClientError_behaviour [where expectedStatus = 404 and requestFn =
        "\<lambda>u. get ?c not_found_transport 0 3 (JStr ''/users/9999'') Map.empty"]
      expectClientError_behaviour [where expectedStatus = 404 and requestFn =
        "\<lambda>u. get ?c echo_transport 0 3 (JStr ''/users/1'') Map.empty"]
      expectClientError_behaviour [where expectedStatus = 404 and requestFn =
        "\<lambda>u. get ?c unavailable_transport 0 3 (JStr ''/users/1'') Map.empty"]
      expectClientError_behaviour [where expectedStatus = 404 and requestFn =
        "\<lambda>u. get ?c timeout_transport 0 3 (JStr ''/users/1'') Map.empty"]
    by (simp add: g1 g2 g3 g4 new_Error_def)
qed

section \<open>The retry helper: attempts, delays and the error raised\<close>

lemma state_before_step:
  "fn (state_before fn s i) = (outcome fn s i, state_before fn s (Suc i))"
  by (simp add: outcome_def)

lemma retry_loop_fails:
  assumes "\<forall>n. i \<le> n \<and> n < K \<longrightarrow> isl (outcome fn s n)"
    and "outcome fn s K = Inl e" and "i \<le> K"
  shows "retry_loop fn (int K) d i (state_before fn s i, tr)
         = (Inl e, state_before fn s (Suc K),
            tr @ concat (map (\<lambda>j. [Called, Slept (d * 2 ^ j)]) [i..<K]) @ [Called])"
  using assms
proof (induction "K - i" arbitrary: i tr)
  case 0
  then have "i = K" by simp
  then show ?case
    using "0.prems"(2)
    by (simp add: retry_loop.simps [of fn "int K" d K] state_before_step
        del: state_before.simps)
next
  case (Suc m)
  then have lt: "i < K" by simp
  with Suc.prems(1) obtain e' where out: "outcome fn s i = Inl e'"
    by (cases "outcome fn s i") auto
  have ih: "retry_loop fn (int K) d (Suc i)
              (state_before fn s (Suc i), tr @ [Called, Slept (d * 2 ^ i)])
         = (Inl e, state_before fn s (Suc K),
            (tr @ [Called, Slept (d * 2 ^ i)])
            @ concat (map (\<lambda>j. [Called, Slept (d * 2 ^ j)]) [Suc i..<K]) @ [Called])"
    using Suc.hyps(2) Suc.prems lt
    by (intro Suc.hyps(1)) auto
  show ?case
    using lt out ih
    by (simp add: retry_loop.simps [of fn "int K" d i] state_before_step upt_conv_Cons
        del: state_before.simps)
qed

lemma retry_loop_succeeds:
  assumes "\<forall>n. i \<le> n \<and> n < N \<longrightarrow> isl (outcome fn s n)"
    and "outcome fn s N = Inr v" and "i \<le> N" and "N \<le> K"
  shows "retry_loop fn (int K) d i (state_before fn s i, tr)
         = (Inr (Some v), state_before fn s (Suc N),
            tr @ concat (map (\<lambda>j. [Called, Slept (d * 2 ^ j)]) [i..<N]) @ [Called])"
  using assms
proof (induction "N - i" arbitrary: i tr)
  case 0
  then have "i = N" by simp
  then show ?case
    using "0.prems"(2,4)
    by (simp add: retry_loop.simps [of fn "int K" d N] state_before_step
        del: state_before.simps)
next
  case (Suc m)
  then have lt: "i < N" by simp
  with Suc.prems(1) obtain e' where out: "outcome fn s i = Inl e'"
    by (cases "outcome fn s i") auto
  have ih: "retry_loop fn (int K) d (Suc i)
              (state_before fn s (Suc i), tr @ [Called, Slept (d * 2 ^ i)])
         = (Inr (Some v), state_before fn s (Suc N),
            (tr @ [Called, Slept (d * 2 ^ i)])
            @ concat (map (\<lambda>j. [Called, Slept (d * 2 ^ j)]) [Suc i..<N]) @ [Called])"
    using Suc.hyps(2) Suc.prems lt
    by (intro Suc.hyps(1)) auto
  show ?case
    using lt out ih Suc.prems(4)
    by (simp add: retry_loop.simps [of fn "int K" d i] state_before_step upt_conv_Cons
        del: state_before.simps)
qed

lemma invocations_backoff_trace: "invocations (backoff_trace d n) = Suc n"
  by (induction n) (simp_all add: backoff_trace_def invocations_def)

lemma delays_append: "delays (xs @ ys) = delays xs @ delays ys"
  by (induction xs rule: delays.induct) simp_all

lemma delays_backoff_trace: "delays (backoff_trace d n) = map (\<lambda>i. d * 2 ^ i) [0..<n]"
  by (induction n) (simp_all add: backoff_trace_def delays_append)

text \<open>
  C2. For every operation, every number \<open>K\<close> of retries and every base delay \<open>d\<close>:
  when the operation fails on each of its invocations 0 to \<open>K\<close>, \<open>retry\<close> invokes it
  exactly \<open>K + 1\<close> times, sleeps \<open>d * 2 ^ i\<close> after the failed invocation \<open>i\<close> for each
  \<open>i < K\<close>, and raises the very error of the last invocation; when the operation first
  succeeds on invocation \<open>N\<close> with \<open>N \<le> K\<close>, \<open>retry\<close> returns that value, having invoked
  the operation exactly \<open>N + 1\<close> times with the sleeps \<open>d, 2 d, 4 d, ...\<close> between the
  failed invocations.
\<close>

theorem retry_exponential_backoff:
  "((\<forall>n < K. isl (outcome fn s n)) \<and> outcome fn s K = Inl e \<longrightarrow>
      retry fn (int K) d s = (Inl e, state_before fn s (Suc K), backoff_trace d K)
      \<and> invocations (backoff_trace d K) = K + 1
      \<and> delays (backoff_trace d K) = map (\<lambda>i. d * 2 ^ i) [0..<K])
   \<and> (N \<le> K \<and> (\<forall>n < N. isl (outcome fn s n)) \<and> outcome fn s N = Inr v \<longrightarrow>
      retry fn (int K) d s = (Inr (Some v), state_before fn s (Suc N), backoff_trace d N)
      \<and> invocations (backoff_trace d N) = N + 1
      \<and> delays (backoff_trace d N) = map (\<lambda>i. d * 2 ^ i) [0..<N])"
  using retry_loop_fails [of 0 K fn s e d "[]"] retry_loop_succeeds [of 0 N fn s v K d "[]"]
  by (simp add: retry_def backoff_trace_def [symmetric] invocations_backoff_trace
      delays_backoff_trace)

lemma flaky_outcomes:
  "outcome flaky 0 0 = Inl ''failure 0''"
  "outcome flaky 0 (Suc 0) = Inl ''failure 1''"
  "outcome flaky 0 (Suc (Suc 0)) = Inr 42"
  by (simp_all add: outcome_def flaky_def show_nat.simps digit_char_def)

theorem retry_exponential_backoff_witness:
  "retry flaky 1 1000 0 = (Inl ''failure 1'', 2, [Called, Slept 1000, Called])
   \<and> retry flaky 3 1000 0
     = (Inr (Some 42), 3, [Called, Slept 1000, Called, Slept 2000, Called])"
proof -
  have a: "retry flaky (int (Suc 0)) 1000 0
      = (Inl ''failure 1'', state_before flaky 0 (Suc (Suc 0)), backoff_trace 1000 (Suc 0))"
    using retry_exponential_backoff [where K = "Suc 0" and fn = flaky and s = 0
        and e = "''failure 1''" and d = 1000]
    by (simp add: flaky_outcomes)
  have b: "retry flaky (int 3) 1000 0
      = (Inr (Some 42), state_before flaky 0 (Suc (Suc (Suc 0))),
         backoff_trace 1000 (Suc (Suc 0)))"
    using retry_exponential_backoff [where K = 3 and fn = flaky and s = 0 and d = 1000
        and N = "Suc (Suc 0)" and v = 42]
    by (simp add: flaky_outcomes less_Suc_eq)
  show ?thesis using a b by (simp add: flaky_def backoff_trace_def upt_rec)
qed

section \<open>The authorization header\<close>

text \<open>
  C9. After \<open>setAuthToken\<close> with a token, the default header mapping maps
  \<^verbatim>\<open>Authorization\<close> to \<^verbatim>\<open>Bearer\<close>, a space and the token; every other default
  header keeps its value and none is removed; every later call of every verb operation
  that does not set \<^verbatim>\<open>Authorization\<close> among its own headers hands the transport a
  request with this header, and its outcome is the outcome of that request; the header
  stays after any later change of the defaults that does not set \<^verbatim>\<open>Authorization\<close>.
\<close>

theorem setAuthToken_frame:
  "defaultHeaders (setAuthToken this token) ''Authorization'' = Some (''Bearer '' @ token)
   \<and> (\<forall>k. k \<noteq> ''Authorization''
         \<longrightarrow> defaultHeaders (setAuthToken this token) k = defaultHeaders this k)
   \<and> dom (defaultHeaders this) \<subseteq> dom (defaultHeaders (setAuthToken this token))
   \<and> (\<forall>(req, res)
         \<in> set (verb_calls (setAuthToken this token) tr startTime endTime endpoint data headers).
         (headers ''Authorization'' = None
            \<longrightarrow> req_headers req ''Authorization'' = Some (''Bearer '' @ token))
         \<and> res = (case tr req of
                    Inr response \<Rightarrow> Inr (addTimingInfo response startTime endTime)
                  | Inl error \<Rightarrow> handleError (setAuthToken this token) error startTime endTime))
   \<and> (\<forall>hs. hs ''Authorization'' = None
         \<longrightarrow> defaultHeaders (setDefaultHeaders (setAuthToken this token) hs) ''Authorization''
             = Some (''Bearer '' @ token))"
proof (intro conjI)
  show "defaultHeaders (setAuthToken this token) ''Authorization'' = Some (''Bearer '' @ token)"
    by (simp add: setAuthToken_def setDefaultHeaders_def)
  show "\<forall>k. k \<noteq> ''Authorization''
         \<longrightarrow> defaultHeaders (setAuthToken this token) k = defaultHeaders this k"
    by (simp add: setAuthToken_def setDefaultHeaders_def map_add_def)
  show "dom (defaultHeaders this) \<subseteq> dom (defaultHeaders (setAuthToken this token))"
    by (auto simp: setAuthToken_def setDefaultHeaders_def)
  show "\<forall>hs. hs ''Authorization'' = None
         \<longrightarrow> defaultHeaders (setDefaultHeaders (setAuthToken this token) hs) ''Authorization''
             = Some (''Bearer '' @ token)"
    by (simp add: setAuthToken_def setDefaultHeaders_def map_add_def)
  show "\<forall>(req, res)
         \<in> set (verb_calls (setAuthToken this token) tr startTime endTime endpoint data headers).
         (headers ''Authorization'' = None
            \<longrightarrow> req_headers req ''Authorization'' = Some (''Bearer '' @ token))
         \<and> res = (case tr req of
                    Inr response \<Rightarrow> Inr (addTimingInfo response startTime endTime)
                  | Inl error \<Rightarrow> handleError (setAuthToken this token) error startTime endTime)"
  proof (intro ballI, clarify, intro conjI impI)
    fix req res
    assume mem: "(req, res)
      \<in> set (verb_calls (setAuthToken this token) tr startTime endTime endpoint data headers)"
    show "res = (case tr req of
                    Inr response \<Rightarrow> Inr (addTimingInfo response startTime endTime)
                  | Inl error \<Rightarrow> handleError (setAuthToken this token) error startTime endTime)"
      by (rule verb_calls_settle [OF mem])
    assume "headers ''Authorization'' = None"
    with verb_calls_headers [OF mem]
    show "req_headers req ''Authorization'' = Some (''Bearer '' @ token)"
      by (simp add: setAuthToken_def setDefaultHeaders_def map_add_def)
  qed
qed

theorem setAuthToken_frame_witness:
  "get (setAuthToken (new_HttpClient ''http://h'') ''abc'') auth_echo_transport 0 1
       (JStr ''/users'') [''Accept'' \<mapsto> ''text/html'']
     = Inr [(''status'', JNum 200), (''body'', JStr ''Bearer abc''), (''duration'', JNum 1)]
   \<and> defaultHeaders (setAuthToken (new_HttpClient ''http://h'') ''abc'') ''Accept''
      = Some ''application/json''"
proof -
  let ?base = "new_HttpClient ''http://h''"
  let ?c = "setAuthToken ?base ''abc''"
  let ?h = "[''Accept'' \<mapsto> ''text/html'']"
  note inst = setAuthToken_frame [of ?base "''abc''" auth_echo_transport 0 1
      "JStr ''/users''" JUndefined ?h]
  have "\<forall>(req, res)
         \<in> set (verb_calls ?c auth_echo_transport 0 1 (JStr ''/users'') JUndefined ?h).
         (?h ''Authorization'' = None
            \<longrightarrow> req_headers req ''Authorization'' = Some (''Bearer '' @ ''abc''))
         \<and> res = (case auth_echo_transport req of
                    Inr response \<Rightarrow> Inr (addTimingInfo response 0 1)
                  | Inl error \<Rightarrow> handleError ?c error 0 1)"
    by (rule inst [THEN conjunct2, THEN conjunct2, THEN conjunct2, THEN conjunct1])
  from bspec [OF this
      get_in_verb_calls [of ?c "JStr ''/users''" ?h auth_echo_transport 0 1 JUndefined]]
  have a: "get ?c auth_echo_transport 0 1 (JStr ''/users'') ?h
     = Inr [(''status'', JNum 200), (''body'', JStr ''Bearer abc''), (''duration'', JNum 1)]"
    by (simp add: auth_echo_transport_def addTimingInfo_def)
  have "\<forall>k. k \<noteq> ''Authorization'' \<longrightarrow> defaultHeaders ?c k = defaultHeaders ?base k"
    by (rule inst [THEN conjunct2, THEN conjunct1])
  then have b: "defaultHeaders ?c ''Accept'' = defaultHeaders ?base ''Accept''"
    by simp
  show ?thesis
    using a b by (simp add: new_HttpClient_def config_defaultHeaders_def)
qed

section \<open>Failures of the verb operations\<close>

lemma map_of_addTimingInfo:
  "map_of (addTimingInfo r t0 t1) = (map_of r)(''duration'' \<mapsto> JNum (t1 - t0))"
  by (simp add: addTimingInfo_def update_conv')

text \<open>
  C1. Whenever the transport rejects the request of a verb operation, the operation
  raises: when the transport's error carries a response, the same error, its response
  now with the elapsed time as \<^verbatim>\<open>duration\<close> and otherwise unchanged; when it carries no
  response and reports a timeout, a new timeout error without a response; in every
  other case a new network error without a response. No failure is swallowed.
\<close>

theorem failures_classified_and_raised:
  "\<forall>(req, res) \<in> set (verb_calls this tr startTime endTime endpoint data headers).
     \<forall>error. tr req = Inl error \<longrightarrow>
       (\<forall>r. err_response error = Some r \<longrightarrow>
          (\<exists>r'. res = Inl (error\<lparr>err_response := Some r'\<rparr>)
                \<and> r' = AList.update ''duration'' (JNum (endTime - startTime)) r
                \<and> map_of r' ''duration'' = Some (JNum (endTime - startTime))
                \<and> (\<forall>k. k \<noteq> ''duration'' \<longrightarrow> map_of r' k = map_of r k)))
       \<and> (err_response error = None \<and> truthy (err_timeout error) \<longrightarrow>
          (\<exists>e. res = Inl e \<and> err_response e = None
               \<and> e = new_Error (''Request timeout after '' @ show_int (timeout this) @ ''ms'')))
       \<and> (err_response error = None \<and> \<not> truthy (err_timeout error) \<longrightarrow>
          (\<exists>e. res = Inl e \<and> err_response e = None
               \<and> e = new_Error (''Network error: '' @ err_message error)))
       \<and> isl res"
proof (intro ballI, clarify)
  fix req res error
  assume mem: "(req, res) \<in> set (verb_calls this tr startTime endTime endpoint data headers)"
    and rej: "tr req = Inl error"
  from verb_calls_settle [OF mem] rej
  have res: "res = handleError this error startTime endTime" by simp
  show "(\<forall>r. err_response error = Some r \<longrightarrow>
          (\<exists>r'. res = Inl (error\<lparr>err_response := Some r'\<rparr>)
                \<and> r' = AList.update ''duration'' (JNum (endTime - startTime)) r
                \<and> map_of r' ''duration'' = Some (JNum (endTime - startTime))
                \<and> (\<forall>k. k \<noteq> ''duration'' \<longrightarrow> map_of r' k = map_of r k)))
       \<and> (err_response error = None \<and> truthy (err_timeout error) \<longrightarrow>
          (\<exists>e. res = Inl e \<and> err_response e = None
               \<and> e = new_Error (''Request timeout after '' @ show_int (timeout this) @ ''ms'')))
       \<and> (err_response error = None \<and> \<not> truthy (err_timeout error) \<longrightarrow>
          (\<exists>e. res = Inl e \<and> err_response e = None
               \<and> e = new_Error (''Network error: '' @ err_message error)))
       \<and> isl res"
    unfolding res
    by (cases "err_response error")
      (simp_all add: handleError_def addTimingInfo_def update_conv' new_Error_def)
qed

theorem failures_classified_and_raised_witness:
  "get (new_HttpClient ''http://h'') not_found_transport 0 3 (JStr ''/users/9999'') Map.empty
     = Inl \<lparr>err_name = ''Error'', err_message = ''Not Found'',
            err_response = Some [(''status'', JNum 404), (''body'', JObj []), (''duration'', JNum 3)],
            err_timeout = JUndefined\<rparr>
   \<and> get (new_HttpClient ''http://h'') timeout_transport 0 3 (JStr ''/users/1'') Map.empty
     = Inl (new_Error (''Request timeout after '' @ show_int 10000 @ ''ms''))
   \<and> get (new_HttpClient ''http://h'') network_transport 0 3 (JStr ''/users/1'') Map.empty
     = Inl (new_Error ''Network error: getaddrinfo ENOTFOUND'')"
proof -
  let ?c = "new_HttpClient ''http://h''"
  have a: "get ?c not_found_transport 0 3 (JStr ''/users/9999'') Map.empty
     = Inl \<lparr>err_name = ''Error'', err_message = ''Not Found'',
            err_response = Some [(''status'', JNum 404), (''body'', JObj []), (''duration'', JNum 3)],
            err_timeout = JUndefined\<rparr>"
    using bspec [OF failures_classified_and_raised
        [of ?c not_found_transport 0 3 "JStr ''/users/9999''" JUndefined Map.empty]
        get_in_verb_calls [of ?c "JStr ''/users/9999''" Map.empty not_found_transport 0 3 JUndefined]]
    by (simp add: not_found_transport_def)
  have b: "get ?c timeout_transport 0 3 (JStr ''/users/1'') Map.empty
     = Inl (new_Error (''Request timeout after '' @ show_int 10000 @ ''ms''))"
    using bspec [OF failures_classified_and_raised
        [of ?c timeout_transport 0 3 "JStr ''/users/1''" JUndefined Map.empty]
        get_in_verb_calls [of ?c "JStr ''/users/1''" Map.empty timeout_transport 0 3 JUndefined]]
    by (simp add: timeout_transport_def new_HttpClient_def config_timeout_def)
  have c: "get ?c network_transport 0 3 (JStr ''/users/1'') Map.empty
     = Inl (new_Error ''Network error: getaddrinfo ENOTFOUND'')"
    using bspec [OF failures_classified_and_raised
        [of ?c network_transport 0 3 "JStr ''/users/1''" JUndefined Map.empty]
        get_in_verb_calls [of ?c "JStr ''/users/1''" Map.empty network_transport 0 3 JUndefined]]
    by (simp add: network_transport_def)
  show ?thesis using a b c by simp
qed

text \<open>
  The claim C4 as stated fails when the clock runs backwards between the two readings
  of a call: the duration is the difference of the readings, and nothing clamps it.
  With the readings 10 and 7 the response returned carries the duration -3.
\<close>

theorem negative_duration_returned:
  "get (new_HttpClient ''http://h'') echo_transport 10 7 (JStr ''/users'') Map.empty
   = Inr [(''status'', JNum 200), (''body'', JStr ''http://h/users''), (''duration'', JNum (- 3))]"
  by (simp add: get_def get_request_def echo_transport_def addTimingInfo_def buildUrl_def
      new_HttpClient_def)

text \<open>
  C4, amended. Every response a verb operation returns is the transport's response
  with, as duration, the later reading of the clock minus the earlier one, a value that
  is not negative exactly when the clock did not run backwards between the readings.
  Every rejection of the transport whose response has a status in the range 400 to 499
  or 500 to 599 is raised as the same error carrying that response, its status and
  every other property unchanged, with this duration attached; and every error raised
  with such a response arises in this way.
\<close>

theorem durations_and_error_responses:
  "\<forall>(req, res) \<in> set (verb_calls this tr startTime endTime endpoint data headers).
     (\<forall>response. tr req = Inr response \<longrightarrow>
        res = Inr (addTimingInfo response startTime endTime))
     \<and> (\<forall>response. res = Inr response \<longrightarrow>
        (\<exists>d. map_of response ''duration'' = Some (JNum d) \<and> d = endTime - startTime
             \<and> (0 \<le> d) = (startTime \<le> endTime)))
     \<and> (\<forall>error r0 s. tr req = Inl error \<and> err_response error = Some r0
          \<and> map_of r0 ''status'' = Some (JNum s)
          \<and> (400 \<le> s \<and> s < 500 \<or> 500 \<le> s \<and> s < 600) \<longrightarrow>
        (\<exists>r. res = Inl (error\<lparr>err_response := Some r\<rparr>)
            \<and> r = AList.update ''duration'' (JNum (endTime - startTime)) r0
            \<and> map_of r ''status'' = Some (JNum s)
            \<and> map_of r ''duration'' = Some (JNum (endTime - startTime))
            \<and> (\<forall>k. k \<noteq> ''duration'' \<longrightarrow> map_of r k = map_of r0 k)))
     \<and> (\<forall>e r s. res = Inl e \<and> err_response e = Some r \<and> map_of r ''status'' = Some (JNum s)
          \<and> (400 \<le> s \<and> s < 500 \<or> 500 \<le> s \<and> s < 600) \<longrightarrow>
        (\<exists>error r0. tr req = Inl error \<and> err_response error = Some r0
            \<and> e = error\<lparr>err_response := Some r\<rparr>
            \<and> r = AList.update ''duration'' (JNum (endTime - startTime)) r0
            \<and> map_of r0 ''status'' = Some (JNum s)
            \<and> map_of r ''duration'' = Some (JNum (endTime - startTime))))"
proof (intro ballI, clarify, intro conjI allI impI)
  fix req res response
  assume mem: "(req, res) \<in> set (verb_calls this tr startTime endTime endpoint data headers)"
    and "tr req = Inr response"
  with verb_calls_settle [OF mem]
  show "res = Inr (addTimingInfo response startTime endTime)" by simp
next
  fix req res response
  assume mem: "(req, res) \<in> set (verb_calls this tr startTime endTime endpoint data headers)"
    and ret: "res = Inr response"
  from verb_calls_settle [OF mem] ret
  obtain r0 where "response = addTimingInfo r0 startTime endTime"
    by (auto simp: handleError_def split: sum.splits option.splits if_splits)
  then have "map_of response ''duration'' = Some (JNum (endTime - startTime))"
    by (simp add: map_of_addTimingInfo)
  then show "\<exists>d. map_of response ''duration'' = Some (JNum d) \<and> d = endTime - startTime
             \<and> (0 \<le> d) = (startTime \<le> endTime)"
    by simp
next
  fix req res error r0 s
  assume mem: "(req, res) \<in> set (verb_calls this tr startTime endTime endpoint data headers)"
    and rej: "tr req = Inl error \<and> err_response error = Some r0
          \<and> map_of r0 ''status'' = Some (JNum s)
          \<and> (400 \<le> s \<and> s < 500 \<or> 500 \<le> s \<and> s < 600)"
  from verb_calls_settle [OF mem] rej
  have "res = Inl (error\<lparr>err_response := Some (addTimingInfo r0 startTime endTime)\<rparr>)"
    by (simp add: handleError_def)
  moreover have "map_of (addTimingInfo r0 startTime endTime) ''status'' = Some (JNum s)"
    using rej by (simp add: map_of_addTimingInfo)
  ultimately show "\<exists>r. res = Inl (error\<lparr>err_response := Some r\<rparr>)
            \<and> r = AList.update ''duration'' (JNum (endTime - startTime)) r0
            \<and> map_of r ''status'' = Some (JNum s)
            \<and> map_of r ''duration'' = Some (JNum (endTime - startTime))
            \<and> (\<forall>k. k \<noteq> ''duration'' \<longrightarrow> map_of r k = map_of r0 k)"
    by (simp add: addTimingInfo_def update_conv')
next
  fix req res e r s
  assume mem: "(req, res) \<in> set (verb_calls this tr startTime endTime endpoint data headers)"
    and raised: "res = Inl e \<and> err_response e = Some r \<and> map_of r ''status'' = Some (JNum s)
          \<and> (400 \<le> s \<and> s < 500 \<or> 500 \<le> s \<and> s < 600)"
  from verb_calls_settle [OF mem] raised
  obtain error where rej: "tr req = Inl error"
    and e: "Inl e = (handleError this error startTime endTime :: js_error + obj)"
    by (auto split: sum.splits)
  from e raised obtain r0 where r0: "err_response error = Some r0"
    and r: "r = addTimingInfo r0 startTime endTime"
    and e': "e = error\<lparr>err_response := Some r\<rparr>"
    by (auto simp: handleError_def new_Error_def split: option.splits if_splits)
  from r raised have "map_of r0 ''status'' = Some (JNum s)"
    by (simp add: map_of_addTimingInfo)
  moreover from r have "map_of r ''duration'' = Some (JNum (endTime - startTime))"
    by (simp add: map_of_addTimingInfo)
  ultimately show "\<exists>error r0. tr req = Inl error \<and> err_response error = Some r0
            \<and> e = error\<lparr>err_response := Some r\<rparr>
            \<and> r = AList.update ''duration'' (JNum (endTime - startTime)) r0
            \<and> map_of r0 ''status'' = Some (JNum s)
            \<and> map_of r ''duration'' = Some (JNum (endTime - startTime))"
    using rej r0 r e' by (auto simp: addTimingInfo_def)
qed

theorem durations_and_error_responses_witness:
  "get (new_HttpClient ''http://h'') echo_transport 0 3 (JStr ''/users/1'') Map.empty
     = Inr [(''status'', JNum 200), (''body'', JStr ''http://h/users/1''), (''duration'', JNum 3)]
   \<and> get (new_HttpClient ''http://h'') not_found_transport 0 3 (JStr ''/users/9999'') Map.empty
     = Inl \<lparr>err_name = ''Error'', err_message = ''Not Found'',
            err_response = Some [(''status'', JNum 404), (''body'', JObj []), (''duration'', JNum 3)],
            err_timeout = JUndefined\<rparr>
   \<and> get (new_HttpClient ''http://h'') unavailable_transport 0 3 (JStr ''/users/1'') Map.empty
     = Inl \<lparr>err_name = ''Error'', err_message = ''Service Unavailable'',
            err_response = Some [(''status'', JNum 503), (''body'', JObj []), (''duration'', JNum 3)],
            err_timeout = JUndefined\<rparr>"
proof -
  let ?c = "new_HttpClient ''http://h''"
  let ?e404 = "\<lparr>err_name = ''Error'', err_message = ''Not Found'',
          err_response = Some [(''status'', JNum 404), (''body'', JObj [])],
          err_timeout = JUndefined\<rparr>"
  let ?e503 = "\<lparr>err_name = ''Error'', err_message = ''Service Unavailable'',
          err_response = Some [(''status'', JNum 503), (''body'', JObj [])],
          err_timeout = JUndefined\<rparr>"
  have "\<forall>response. echo_transport (get_request ?c (JStr ''/users/1'') Map.empty) = Inr response
          \<longrightarrow> get ?c echo_transport 0 3 (JStr ''/users/1'') Map.empty
              = Inr (addTimingInfo response 0 3)"
    using bspec [OF durations_and_error_responses
        [of ?c echo_transport 0 3 "JStr ''/users/1''" JUndefined Map.empty]
        get_in_verb_calls [of ?c "JStr ''/users/1''" Map.empty echo_transport 0 3 JUndefined]]
    unfolding prod.case by (elim conjE) assumption
  then have a: "get ?c echo_transport 0 3 (JStr ''/users/1'') Map.empty
     = Inr [(''status'', JNum 200), (''body'', JStr ''http://h/users/1''), (''duration'', JNum 3)]"
    by (simp add: echo_transport_def get_request_def buildUrl_def new_HttpClient_def
        addTimingInfo_def)
  have "\<forall>error r0 s.
          not_found_transport (get_request ?c (JStr ''/users/9999'') Map.empty) = Inl error
          \<and> err_response error = Some r0 \<and> map_of r0 ''status'' = Some (JNum s)
          \<and> (400 \<le> s \<and> s < 500 \<or> 500 \<le> s \<and> s < 600) \<longrightarrow>
        (\<exists>r. get ?c not_found_transport 0 3 (JStr ''/users/9999'') Map.empty
              = Inl (error\<lparr>err_response := Some r\<rparr>)
            \<and> r = AList.update ''duration'' (JNum (3 - 0)) r0
            \<and> map_of r ''status'' = Some (JNum s)
            \<and> map_of r ''duration'' = Some (JNum (3 - 0))
            \<and> (\<forall>k. k \<noteq> ''duration'' \<longrightarrow> map_of r k = map_of r0 k))"
    using bspec [OF durations_and_error_responses
        [of ?c not_found_transport 0 3 "JStr ''/users/9999''" JUndefined Map.empty]
        get_in_verb_calls [of ?c "JStr ''/users/9999''" Map.empty not_found_transport 0 3 JUndefined]]
    unfolding prod.case by (elim conjE) assumption
  from this [rule_format, of ?e404 "[(''status'', JNum 404), (''body'', JObj [])]" 404]
  have b: "get ?c not_found_transport 0 3 (JStr ''/users/9999'') Map.empty
     = Inl \<lparr>err_name = ''Error'', err_message = ''Not Found'',
            err_response = Some [(''status'', JNum 404), (''body'', JObj []), (''duration'', JNum 3)],
            err_timeout = JUndefined\<rparr>"
    by (simp add: not_found_transport_def)
  have "\<forall>error r0 s.
          unavailable_transport (get_request ?c (JStr ''/users/1'') Map.empty) = Inl error
          \<and> err_response error = Some r0 \<and> map_of r0 ''status'' = Some (JNum s)
          \<and> (400 \<le> s \<and> s < 500 \<or> 500 \<le> s \<and> s < 600) \<longrightarrow>
        (\<exists>r. get ?c unavailable_transport 0 3 (JStr ''/users/1'') Map.empty
              = Inl (error\<lparr>err_response := Some r\<rparr>)
            \<and> r = AList.update ''duration'' (JNum (3 - 0)) r0
            \<and> map_of r ''status'' = Some (JNum s)
            \<and> map_of r ''duration'' = Some (JNum (3 - 0))
            \<and> (\<forall>k. k \<noteq> ''duration'' \<longrightarrow> map_of r k = map_of r0 k))"
    using bspec [OF durations_and_error_responses
        [of ?c unavailable_transport 0 3 "JStr ''/users/1''" JUndefined Map.empty]
        get_in_verb_calls [of ?c "JStr ''/users/1''" Map.empty unavailable_transport 0 3 JUndefined]]
    unfolding prod.case by (elim conjE) assumption
  from this [rule_format, of ?e503 "[(''status'', JNum 503), (''body'', JObj [])]" 503]
  have c: "get ?c unavailable_transport 0 3 (JStr ''/users/1'') Map.empty
     = Inl \<lparr>err_name = ''Error'', err_message = ''Service Unavailable'',
            err_response = Some [(''status'', JNum 503), (''body'', JObj []), (''duration'', JNum 3)],
            err_timeout = JUndefined\<rparr>"
    by (simp add: unavailable_transport_def)
  show ?thesis using a b c by simp
qed

end
